theory Spec2Isabelle
  imports Main
begin

section \<open>Python values and the built-in operations the two helpers use\<close>

text \<open>
  The source is untyped, so its arguments range over Python values. The universe below
  holds \<open>None\<close>, booleans, unbounded integers, strings, lists and dictionaries. A
  dictionary is an association list in insertion order, looked up with \<open>map_of\<close>; a
  Python dictionary has each key once, and the lookup of a doubled key takes its first
  entry. Floating-point numbers are not part of this universe: every statement about a
  numeric price below speaks of \<open>int\<close> (and \<open>bool\<close>, which Python counts as the
  integers 0 and 1).
\<close>

datatype pyval =
    PNone
  | PBool bool
  | PInt int
  | PStr string
  | PList "pyval list"
  | PDict "(pyval \<times> pyval) list"

datatype error =
    KeyError pyval
  | TypeError
  | AttributeError

text \<open>Truth value testing, as \<open>x if user else y\<close> applies it to \<open>user\<close>.\<close>

fun truthy :: "pyval \<Rightarrow> bool" where
  "truthy PNone = False"
| "truthy (PBool b) = b"
| "truthy (PInt i) = (i \<noteq> 0)"
| "truthy (PStr s) = (s \<noteq> [])"
| "truthy (PList xs) = (xs \<noteq> [])"
| "truthy (PDict kvs) = (kvs \<noteq> [])"

text \<open>
  \<open>obj[key]\<close> for a string key. A dictionary raises KeyError for a missing key; a list
  or a string takes integer indices only, and the other values are not subscriptable:
  both are a TypeError.
\<close>

fun py_getitem_str :: "pyval \<Rightarrow> string \<Rightarrow> error + pyval" where
  "py_getitem_str (PDict kvs) key =
     (case map_of kvs (PStr key) of
        None \<Rightarrow> Inl (KeyError (PStr key))
      | Some v \<Rightarrow> Inr v)"
| "py_getitem_str _ key = Inl TypeError"

text \<open>
  \<open>obj.get(key, default)\<close> for a string key: only a dictionary has the method; on any
  other value the attribute lookup itself raises AttributeError.
\<close>

fun py_get :: "pyval \<Rightarrow> string \<Rightarrow> pyval \<Rightarrow> error + pyval" where
  "py_get (PDict kvs) key dflt =
     (case map_of kvs (PStr key) of
        None \<Rightarrow> Inr dflt
      | Some v \<Rightarrow> Inr v)"
| "py_get _ key dflt = Inl AttributeError"

text \<open>The integer a numeric value stands for; \<open>None\<close> for a value that is not a number.\<close>

fun num_val :: "pyval \<Rightarrow> int option" where
  "num_val (PInt i) = Some i"
| "num_val (PBool b) = Some (if b then 1 else 0)"
| "num_val _ = None"

text \<open>\<open>v > n\<close> for an integer literal \<open>n\<close>: an order comparison of a non-number with an
  integer raises TypeError.\<close>

definition py_gt_int :: "pyval \<Rightarrow> int \<Rightarrow> error + bool" where
  "py_gt_int v n =
     (case num_val v of
        None \<Rightarrow> Inl TypeError
      | Some i \<Rightarrow> Inr (n < i))"

text \<open>\<open>a + b\<close>: numbers add to an integer, strings and lists concatenate, anything else
  is a TypeError.\<close>

fun py_add :: "pyval \<Rightarrow> pyval \<Rightarrow> error + pyval" where
  "py_add (PStr s) (PStr t) = Inr (PStr (s @ t))"
| "py_add (PList xs) (PList ys) = Inr (PList (xs @ ys))"
| "py_add a b =
     (case (num_val a, num_val b) of
        (Some i, Some j) \<Rightarrow> Inr (PInt (i + j))
      | _ \<Rightarrow> Inl TypeError)"

text \<open>\<open>iter(obj)\<close>, as the elements it will yield: a list yields its elements, a string
  its characters, a dictionary its keys; the other values are not iterable.\<close>

fun py_iter :: "pyval \<Rightarrow> error + pyval list" where
  "py_iter (PList xs) = Inr xs"
| "py_iter (PStr s) = Inr (map (\<lambda>c. PStr [c]) s)"
| "py_iter (PDict kvs) = Inr (map fst kvs)"
| "py_iter _ = Inl TypeError"

section \<open>calculate\_total\<close>

text \<open>
  \<^verbatim>\<open>
  def calculate_total(items):
      return sum(item['price'] for item in items if item['price'] > 0)
  \<close>
  The generator expression is lazy: \<open>sum\<close> asks it for one value at a time. One request
  (\<open>genexpr_next\<close>) walks the remaining items; for each it evaluates the condition
  \<open>item['price'] > 0\<close>, and when that holds it evaluates \<open>item['price']\<close> again and
  yields it. The result is \<open>None\<close> when the items are exhausted, an error when a
  subscript or the comparison raises, and otherwise the value yielded together with the
  items still to visit.
\<close>

fun genexpr_next :: "pyval list \<Rightarrow> (error + pyval \<times> pyval list) option" where
  "genexpr_next [] = None"
| "genexpr_next (item # rest) =
     (case py_getitem_str item ''price'' of
        Inl e \<Rightarrow> Some (Inl e)
      | Inr p \<Rightarrow>
          (case py_gt_int p 0 of
             Inl e \<Rightarrow> Some (Inl e)
           | Inr c \<Rightarrow>
               if c then
                 (case py_getitem_str item ''price'' of
                    Inl e \<Rightarrow> Some (Inl e)
                  | Inr v \<Rightarrow> Some (Inr (v, rest)))
               else genexpr_next rest))"

text \<open>\<open>sum\<close> starts from its accumulator (the integer 0 in the call above) and adds each
  value the generator yields; an error of the generator or of the addition ends it.\<close>

function py_sum :: "pyval \<Rightarrow> pyval list \<Rightarrow> error + pyval" where
  "py_sum acc st =
     (case genexpr_next st of
        None \<Rightarrow> Inr acc
      | Some (Inl e) \<Rightarrow> Inl e
      | Some (Inr (v, st')) \<Rightarrow>
          (case py_add acc v of
             Inl e \<Rightarrow> Inl e
           | Inr acc' \<Rightarrow> py_sum acc' st'))"
  by pat_completeness auto
termination
proof (relation "measure (\<lambda>(acc, st). length st)")
  show "wf (measure (\<lambda>(acc, st). length st))"
    by simp
next
  fix acc :: pyval and st :: "pyval list" and x2 x2a x y acc'
  assume nxt: "genexpr_next st = Some x2" and x2: "x2 = Inr x2a" and xy: "(x, y) = x2a"
  have shorter: "genexpr_next xs = Some (Inr (v, r)) \<Longrightarrow> length r < length xs" for xs v r
    by (induction xs) (auto split: sum.splits if_splits)
  from nxt x2 xy have "genexpr_next st = Some (Inr (x, y))"
    by simp
  then have "length y < length st"
    by (rule shorter)
  then show "((acc', y), (acc, st)) \<in> measure (\<lambda>(acc, st). length st)"
    by simp
qed

declare py_sum.simps [simp del]

definition calculate_total :: "pyval \<Rightarrow> error + pyval" where
  "calculate_total items =
     (case py_iter items of
        Inl e \<Rightarrow> Inl e
      | Inr its \<Rightarrow> py_sum (PInt 0) its)"

section \<open>get\_user\_name\<close>

text \<open>
  \<^verbatim>\<open>
  def get_user_name(user):
      return user.get('name', 'Unknown') if user else 'Unknown'
  \<close>
\<close>

definition get_user_name :: "pyval \<Rightarrow> error + pyval" where
  "get_user_name user =
     (if truthy user then py_get user ''name'' (PStr ''Unknown'')
      else Inr (PStr ''Unknown''))"

section \<open>Vocabulary for the properties\<close>


fun is_dict :: "pyval \<Rightarrow> bool" where
  "is_dict (PDict kvs) = True"
| "is_dict _ = False"






section \<open>Properties of calculate\_total\<close>

lemma py_sum_Nil: "py_sum acc [] = Inr acc"
  by (simp add: py_sum.simps)









text \<open>
  C6: \<open>calculate_total([])\<close> returns the integer 0.
\<close>

theorem calculate_total_empty: "calculate_total (PList []) = Inr (PInt 0)"
  by (simp add: calculate_total_def py_sum_Nil)















section \<open>Properties of get\_user\_name\<close>

text \<open>
  C2: \<open>get_user_name(None)\<close> and \<open>get_user_name({})\<close> return \<open>'Unknown'\<close>,
  \<open>get_user_name({'name': 'Alice'})\<close> returns \<open>'Alice'\<close>, and every dictionary that
  holds a name under the key \<open>'name'\<close> gives that name back.
\<close>

theorem get_user_name_examples:
  "get_user_name PNone = Inr (PStr ''Unknown'')
   \<and> get_user_name (PDict []) = Inr (PStr ''Unknown'')
   \<and> get_user_name (PDict [(PStr ''name'', PStr ''Alice'')]) = Inr (PStr ''Alice'')
   \<and> (\<forall>kvs s. map_of kvs (PStr ''name'') = Some (PStr s)
          \<longrightarrow> get_user_name (PDict kvs) = Inr (PStr s))"
  by (auto simp: get_user_name_def)

theorem get_user_name_examples_witness:
  "map_of [(PStr ''age'', PInt 30), (PStr ''name'', PStr ''Bob'')] (PStr ''name'')
     = Some (PStr ''Bob'')
   \<and> get_user_name (PDict [(PStr ''age'', PInt 30), (PStr ''name'', PStr ''Bob'')])
       = Inr (PStr ''Bob'')"
proof -
  have h: "map_of [(PStr ''age'', PInt 30), (PStr ''name'', PStr ''Bob'')] (PStr ''name'')
             = Some (PStr ''Bob'')"
    by simp
  from get_user_name_examples
  have "\<forall>kvs s. map_of kvs (PStr ''name'') = Some (PStr s)
          \<longrightarrow> get_user_name (PDict kvs) = Inr (PStr s)"
    by blast
  with h show ?thesis
    by blast
qed

text \<open>
  C3, as the code has it: for a user that is a dictionary without the key \<open>'name'\<close>,
  \<open>get_user_name\<close> returns \<open>'Unknown'\<close>. A key that is present with the value
  \<open>None\<close> does not count as absent: \<open>None\<close> itself is returned.
\<close>

theorem get_user_name_name_absent:
  "(map_of kvs (PStr ''name'') = None \<longrightarrow> get_user_name (PDict kvs) = Inr (PStr ''Unknown''))
   \<and> (map_of kvs (PStr ''name'') = Some PNone \<longrightarrow> get_user_name (PDict kvs) = Inr PNone)"
  by (auto simp: get_user_name_def)

theorem get_user_name_name_absent_witness:
  "map_of [(PStr ''age'', PInt 30)] (PStr ''name'') = None
   \<and> get_user_name (PDict [(PStr ''age'', PInt 30)]) = Inr (PStr ''Unknown'')
   \<and> map_of [(PStr ''age'', PInt 30), (PStr ''name'', PNone)] (PStr ''name'') = Some PNone
   \<and> get_user_name (PDict [(PStr ''age'', PInt 30), (PStr ''name'', PNone)]) = Inr PNone"
proof -
  have h1: "map_of [(PStr ''age'', PInt 30)] (PStr ''name'') = None"
    by simp
  have h2: "map_of [(PStr ''age'', PInt 30), (PStr ''name'', PNone)] (PStr ''name'') = Some PNone"
    by simp
  from h1 get_user_name_name_absent [of "[(PStr ''age'', PInt 30)]"]
  have r1: "get_user_name (PDict [(PStr ''age'', PInt 30)]) = Inr (PStr ''Unknown'')"
    by blast
  from h2 get_user_name_name_absent [of "[(PStr ''age'', PInt 30), (PStr ''name'', PNone)]"]
  have r2: "get_user_name (PDict [(PStr ''age'', PInt 30), (PStr ''name'', PNone)]) = Inr PNone"
    by blast
  from h1 r1 h2 r2 show ?thesis
    by blast
qed

text \<open>
  C3 as stated fails: the user \<open>{'name': None}\<close> is a present mapping whose name is set
  to null, and the call returns \<open>None\<close>, not \<open>'Unknown'\<close>.
\<close>

theorem get_user_name_null_name_counterexample:
  "is_dict (PDict [(PStr ''name'', PNone)])
   \<and> map_of [(PStr ''name'', PNone)] (PStr ''name'') = Some PNone
   \<and> get_user_name (PDict [(PStr ''name'', PNone)]) = Inr PNone
   \<and> get_user_name (PDict [(PStr ''name'', PNone)]) \<noteq> Inr (PStr ''Unknown'')"
  by (simp add: get_user_name_def)

text \<open>
  C7: for an absent user and for every dictionary, empty or not, with or without the key
  \<open>'name'\<close>, \<open>get_user_name\<close> returns a value and raises nothing.
\<close>

theorem get_user_name_never_fails:
  assumes "user = PNone \<or> is_dict user"
  shows "\<exists>v. get_user_name user = Inr v"
proof (cases user)
  case (PDict kvs)
  then show ?thesis
    by (simp add: get_user_name_def split: option.splits)
qed (use assms in \<open>simp_all add: get_user_name_def\<close>)

theorem get_user_name_never_fails_witness:
  "(PDict [(PStr ''age'', PInt 30)] = PNone \<or> is_dict (PDict [(PStr ''age'', PInt 30)]))
   \<and> (\<exists>v. get_user_name (PDict [(PStr ''age'', PInt 30)]) = Inr v)"
proof -
  have h: "PDict [(PStr ''age'', PInt 30)] = PNone \<or> is_dict (PDict [(PStr ''age'', PInt 30)])"
    by simp
  from h get_user_name_never_fails [OF h] show ?thesis ..
qed

text \<open>
  C9: a dictionary that contains the key \<open>'name'\<close> gives back the value stored under
  it unchanged, whatever it is (\<open>None\<close> and the empty string included). For a dictionary
  the result \<open>'Unknown'\<close> therefore arises only when the key is absent (as in the empty
  dictionary), unless that very string is what is stored.
\<close>

theorem get_user_name_stored_value:
  "(map_of kvs (PStr ''name'') = Some v \<longrightarrow> get_user_name (PDict kvs) = Inr v)
   \<and> (get_user_name (PDict kvs) = Inr (PStr ''Unknown'')
        \<longrightarrow> map_of kvs (PStr ''name'') = None
            \<or> map_of kvs (PStr ''name'') = Some (PStr ''Unknown''))"
proof (cases "map_of kvs (PStr ''name'')")
  case None
  then show ?thesis
    by simp
next
  case (Some w)
  then have "kvs \<noteq> []"
    by auto
  with Some have "get_user_name (PDict kvs) = Inr w"
    by (simp add: get_user_name_def)
  with Some show ?thesis
    by simp
qed

theorem get_user_name_stored_value_witness:
  "map_of [(PStr ''name'', PNone)] (PStr ''name'') = Some PNone
   \<and> get_user_name (PDict [(PStr ''name'', PNone)]) = Inr PNone
   \<and> map_of [(PStr ''id'', PInt 7), (PStr ''name'', PStr '''')] (PStr ''name'') = Some (PStr '''')
   \<and> get_user_name (PDict [(PStr ''id'', PInt 7), (PStr ''name'', PStr '''')]) = Inr (PStr '''')
   \<and> get_user_name (PDict [(PStr ''id'', PInt 7)]) = Inr (PStr ''Unknown'')
   \<and> map_of [(PStr ''id'', PInt 7)] (PStr ''name'') = None"
proof -
  have h1: "map_of [(PStr ''name'', PNone)] (PStr ''name'') = Some PNone"
    by simp
  have h2: "map_of [(PStr ''id'', PInt 7), (PStr ''name'', PStr '''')] (PStr ''name'')
              = Some (PStr '''')"
    by simp
  have h3: "get_user_name (PDict [(PStr ''id'', PInt 7)]) = Inr (PStr ''Unknown'')"
    by (simp add: get_user_name_def)
  from h1 get_user_name_stored_value [of "[(PStr ''name'', PNone)]" PNone]
  have r1: "get_user_name (PDict [(PStr ''name'', PNone)]) = Inr PNone"
    by blast
  from h2 get_user_name_stored_value
            [of "[(PStr ''id'', PInt 7), (PStr ''name'', PStr '''')]" "PStr ''''"]
  have r2: "get_user_name (PDict [(PStr ''id'', PInt 7), (PStr ''name'', PStr '''')])
              = Inr (PStr '''')"
    by blast
  from h3 get_user_name_stored_value [of "[(PStr ''id'', PInt 7)]" PNone]
  have r3: "map_of [(PStr ''id'', PInt 7)] (PStr ''name'') = None"
    by simp
  from h1 r1 h2 r2 h3 r3 show ?thesis
    by blast
qed

end
